theory Spec2Isabelle
  imports Complex_Main
begin

section \<open>Python values, errors and indexing\<close>

text \<open>
  The two scripts of the repository, \<^verbatim>\<open>deepTime_buddy.py\<close> and \<^verbatim>\<open>dialog_FRAP.py\<close>, are
  Jython scripts for ImageJ. Every exception a script can raise is a value of \<open>error\<close>;
  a computation that may raise returns \<open>error + 'a\<close>, with \<open>Inl\<close> for the exception.
  The argument of \<open>AttributeError\<close> and \<open>TypeError\<close> is the attribute or the operation that
  failed on \<^verbatim>\<open>None\<close>, that of \<open>NameError\<close> is the name that is not defined, that of
  \<open>KeyError\<close> and \<open>ValueError\<close> the offending key or literal.
\<close>

datatype error =
    AttributeError string
  | TypeError string
  | NameError string
  | KeyError string
  | ValueError string
  | IndexError

text \<open>
  \<^verbatim>\<open>int(x)\<close> on a number read from a dialog field: truncation towards zero. The field
  values are modelled as reals; the non-finite doubles are outside the model.
\<close>

definition py_int :: "real \<Rightarrow> int" where
  "py_int x = (if 0 \<le> x then \<lfloor>x\<rfloor> else \<lceil>x\<rceil>)"

text \<open>
  \<^verbatim>\<open>xs[i]\<close> on a sequence: an index below zero counts from the end, and an index that
  is still out of range after that raises \<^verbatim>\<open>IndexError\<close>.
\<close>

definition py_getitem :: "'a list \<Rightarrow> int \<Rightarrow> error + 'a" where
  "py_getitem xs i =
     (if 0 \<le> i \<and> i < int (length xs) then Inr (xs ! nat i)
      else if i < 0 \<and> - int (length xs) \<le> i then Inr (xs ! nat (int (length xs) + i))
      else Inl IndexError)"

text \<open>\<^verbatim>\<open>str(n)\<close> of an integer: its decimal digits, with a minus sign when negative.\<close>

definition decimal_digits :: string where
  "decimal_digits = ''0123456789''"

text \<open>The character of a digit \<open>d\<close>; \<open>str_nat\<close> calls it with \<open>d < 10\<close> only.\<close>

definition digit_char :: "nat \<Rightarrow> char" where
  "digit_char d = decimal_digits ! d"

function str_nat :: "nat \<Rightarrow> string" where
  "str_nat n = (if n < 10 then [digit_char n] else str_nat (n div 10) @ [digit_char (n mod 10)])"
  by pat_completeness auto
termination
  by (relation "measure (\<lambda>n. n)") auto

declare str_nat.simps [simp del]

definition py_str :: "int \<Rightarrow> string" where
  "py_str i = (if i < 0 then CHR ''-'' # str_nat (nat (- i)) else str_nat (nat i))"

text \<open>
  \<^verbatim>\<open>int(s)\<close> of a string: an optional sign followed by one or more decimal digits; any
  other string raises \<^verbatim>\<open>ValueError\<close>. (Blanks around the literal, which Python also
  accepts, are not modelled: \<^verbatim>\<open>str\<close> never produces them.)
\<close>

definition digit_val :: "char \<Rightarrow> nat option" where
  "digit_val c = map_of (zip decimal_digits [0..<10]) c"

fun parse_digits :: "nat \<Rightarrow> string \<Rightarrow> nat option" where
  "parse_digits acc [] = Some acc"
| "parse_digits acc (c # cs) =
     (case digit_val c of None \<Rightarrow> None | Some d \<Rightarrow> parse_digits (acc * 10 + d) cs)"

definition parse_nat :: "string \<Rightarrow> nat option" where
  "parse_nat s = (if s = [] then None else parse_digits 0 s)"

definition py_int_str :: "string \<Rightarrow> error + int" where
  "py_int_str s =
     (case s of
        [] \<Rightarrow> Inl (ValueError s)
      | c # cs \<Rightarrow>
          if c = CHR ''-'' then
            (case parse_nat cs of None \<Rightarrow> Inl (ValueError s) | Some n \<Rightarrow> Inr (- int n))
          else if c = CHR ''+'' then
            (case parse_nat cs of None \<Rightarrow> Inl (ValueError s) | Some n \<Rightarrow> Inr (int n))
          else
            (case parse_nat s of None \<Rightarrow> Inl (ValueError s) | Some n \<Rightarrow> Inr (int n)))"


section \<open>Images, calibrations and the object store\<close>

text \<open>
  An ImageJ \<^verbatim>\<open>Calibration\<close> holds the frame interval and its unit. An \<^verbatim>\<open>ImagePlus\<close> is
  what the scripts read of it: title, calibration, number of channels and of frames, the
  frame on display, and the stack of planes (of an opaque type \<open>'f\<close>) in ImageJ's stack
  order, in which the channel index runs fastest. The fields carry the names of the
  getters the scripts call.
\<close>

record Calibration =
  frameInterval :: real
  getTimeUnit :: string

record 'f ImagePlus =
  getTitle :: string
  getCalibration :: Calibration
  getNChannels :: nat
  getNFrames :: nat
  getFrame :: nat
  getImageStack :: "'f list"

text \<open>
  Python variables hold references to objects. The scripts rebind \<^verbatim>\<open>imp\<close> while another
  object still holds the old reference, so the images live in a store: \<open>heap\<close> maps an
  address to the image there, \<open>fresh\<close> is the next unused address. \<open>shown\<close> collects the
  texts of \<^verbatim>\<open>IJ.showMessage\<close> (a message box put before the user), \<open>logged\<close> those of
  \<^verbatim>\<open>IJ.log\<close>.
\<close>

type_synonym ref = nat

record 'f world =
  heap :: "ref \<rightharpoonup> 'f ImagePlus"
  fresh :: ref
  shown :: "string list"
  logged :: "string list"

definition alloc :: "'f world \<Rightarrow> 'f ImagePlus \<Rightarrow> ref \<times> 'f world" where
  "alloc w im =
     (fresh w, heap_update (\<lambda>h. h(fresh w \<mapsto> im)) (w\<lparr>fresh := Suc (fresh w)\<rparr>))"

text \<open>\<^verbatim>\<open>imp.setCalibration(cal)\<close>: the image at the address gets the calibration.\<close>

definition setCalibration :: "ref \<Rightarrow> Calibration \<Rightarrow> 'f world \<Rightarrow> 'f world" where
  "setCalibration r cal w =
     (case heap w r of
        None \<Rightarrow> w
      | Some im \<Rightarrow> heap_update (\<lambda>h. h(r \<mapsto> im\<lparr>getCalibration := cal\<rparr>)) w)"

definition IJ_showMessage :: "string \<Rightarrow> 'f world \<Rightarrow> 'f world" where
  "IJ_showMessage msg w = w\<lparr>shown := shown w @ [msg]\<rparr>"

definition IJ_log :: "string \<Rightarrow> 'f world \<Rightarrow> 'f world" where
  "IJ_log msg w = w\<lparr>logged := logged w @ [msg]\<rparr>"


section \<open>The projector object\<close>

text \<open>
  The six projection methods, named as the constants of ImageJ's \<^verbatim>\<open>ZProjector\<close> that
  the script collects in \<^verbatim>\<open>methods_as_const\<close>.
\<close>

datatype zmethod =
  AVG_METHOD | MAX_METHOD | MIN_METHOD | SUM_METHOD | SD_METHOD | MEDIAN_METHOD

text \<open>
  A \<^verbatim>\<open>ZProjector\<close> object: the reference to the image it was constructed from, the
  method, the first and last slice to project (numbered from 1) and the projection made
  so far. The class belongs to ImageJ, not to the repository; its state is modelled as
  far as the script drives it. The constructor selects the whole stack. The two slice
  setters of ImageJ leave the projector unchanged when the slice number is not within
  \<open>1 .. stack size\<close>. The reduction of the selected planes to one plane is a parameter
  \<open>project\<close> of the model (the projection engine).
\<close>

record 'f ZProjector =
  zp_imp :: ref
  zp_method :: zmethod
  startSlice :: int
  stopSlice :: int
  projImage :: "'f option"

definition new_ZProjector :: "'f world \<Rightarrow> ref \<Rightarrow> error + 'f ZProjector" where
  "new_ZProjector w r =
     (case heap w r of
        None \<Rightarrow> Inl (AttributeError ''getStackSize'')
      | Some im \<Rightarrow>
          Inr \<lparr>zp_imp = r, zp_method = MAX_METHOD, startSlice = 1,
               stopSlice = int (length (getImageStack im)), projImage = None\<rparr>)"

definition setMethod :: "zmethod \<Rightarrow> 'f ZProjector \<Rightarrow> 'f ZProjector" where
  "setMethod m zp = zp\<lparr>zp_method := m\<rparr>"

definition setStartSlice :: "'f world \<Rightarrow> int \<Rightarrow> 'f ZProjector \<Rightarrow> 'f ZProjector" where
  "setStartSlice w slice zp =
     (case heap w (zp_imp zp) of
        None \<Rightarrow> zp
      | Some im \<Rightarrow>
          if slice < 1 \<or> slice > int (length (getImageStack im)) then zp
          else zp\<lparr>startSlice := slice\<rparr>)"

definition setStopSlice :: "'f world \<Rightarrow> int \<Rightarrow> 'f ZProjector \<Rightarrow> 'f ZProjector" where
  "setStopSlice w slice zp =
     (case heap w (zp_imp zp) of
        None \<Rightarrow> zp
      | Some im \<Rightarrow>
          if slice < 1 \<or> slice > int (length (getImageStack im)) then zp
          else zp\<lparr>stopSlice := slice\<rparr>)"

text \<open>The planes number \<open>a\<close> to \<open>b\<close> of a stack, both counted from 1 and included.\<close>

definition slices :: "'f list \<Rightarrow> int \<Rightarrow> int \<Rightarrow> 'f list" where
  "slices st a b = take (nat (b - a + 1)) (drop (nat (a - 1)) st)"

definition doProjection ::
  "(zmethod \<Rightarrow> 'f list \<Rightarrow> 'f) \<Rightarrow> 'f world \<Rightarrow> 'f ZProjector \<Rightarrow> 'f ZProjector" where
  "doProjection project w zp =
     (case heap w (zp_imp zp) of
        None \<Rightarrow> zp
      | Some im \<Rightarrow>
          zp\<lparr>projImage :=
               Some (project (zp_method zp)
                       (slices (getImageStack im) (startSlice zp) (stopSlice zp)))\<rparr>)"


section \<open>The script \<^verbatim>\<open>deepTime_buddy.py\<close>\<close>

text \<open>
  The dialog "TimeCompactor options" as \<^verbatim>\<open>setupDialog\<close> builds it: one field of the
  record for each field added, in the order added. \<^verbatim>\<open>getNextNumber\<close> reads the numeric
  fields and the sliders in that order (frame interval, start, stop, frames per
  projection). Showing the dialog is the user's part: \<open>showDialog\<close>, a parameter of the
  model, takes the dialog with its defaults and gives it back as the user left it, with
  \<open>tc_wasCanceled\<close> set when the user cancelled.
\<close>

record TimeCompactor_options =
  tc_message :: string
  tc_frame_interval :: real
  tc_time_unit :: string
  tc_start :: real
  tc_stop :: real
  tc_per_integral :: real
  tc_methods :: "string list"
  tc_method :: string
  tc_wasCanceled :: bool

definition methods_as_strings :: "string list" where
  "methods_as_strings =
     [''Average Intensity'', ''Max Intensity'', ''Min Intensity'', ''Sum Slices'',
      ''Standard Deviation'', ''Median'']"

definition methods_as_const :: "zmethod list" where
  "methods_as_const =
     [AVG_METHOD, MAX_METHOD, MIN_METHOD, SUM_METHOD, SD_METHOD, MEDIAN_METHOD]"

text \<open>\<^verbatim>\<open>dict(zip(methods_as_strings, methods_as_const))\<close>; the keys are distinct.\<close>

definition medthod_dict :: "string \<rightharpoonup> zmethod" where
  "medthod_dict = map_of (zip methods_as_strings methods_as_const)"

text \<open>
  Lines 13 to 29 of \<^verbatim>\<open>setupDialog(imp)\<close>: the dialog with its defaults. The default
  method is \<^verbatim>\<open>methods_as_strings[1]\<close>.
\<close>

definition TimeCompactor_dialog :: "'f ImagePlus \<Rightarrow> TimeCompactor_options" where
  "TimeCompactor_dialog im =
     (let calibration = getCalibration im;
          default_interval =
            (if frameInterval calibration > 0 then frameInterval calibration else 0)
      in \<lparr>tc_message = ''Welcome to TimeCompactor 0.1, you are analyzing: '' @ getTitle im,
          tc_frame_interval = default_interval,
          tc_time_unit = getTimeUnit calibration,
          tc_start = real (getFrame im),
          tc_stop = real (getNFrames im),
          tc_per_integral = 10,
          tc_methods = methods_as_strings,
          tc_method = ''Max Intensity'',
          tc_wasCanceled = False\<rparr>)"

text \<open>
  \<^verbatim>\<open>setupDialog(imp)\<close>: shows the dialog; returns \<^verbatim>\<open>None\<close> after logging when the user
  cancelled, the dialog otherwise.
\<close>

definition setupDialog ::
  "(TimeCompactor_options \<Rightarrow> TimeCompactor_options) \<Rightarrow> 'f world \<Rightarrow> 'f ImagePlus
     \<Rightarrow> 'f world \<times> TimeCompactor_options option" where
  "setupDialog showDialog w im =
     (let gd = showDialog (TimeCompactor_dialog im)
      in if tc_wasCanceled gd then (IJ_log ''User canceled dialog!'' w, None)
         else (w, Some gd))"

text \<open>
  The module-level variables when the script has run to its end. \<open>g_zp1\<close> is what
  \<^verbatim>\<open>zp.getProjection()\<close> returned, \<open>g_stack_track\<close> the empty stack of
  \<^verbatim>\<open>imp.createEmptyStack()\<close>.
\<close>

record 'f globals =
  g_imp :: ref
  g_cal :: Calibration
  g_zp :: "'f ZProjector"
  g_frame_interval :: real
  g_time_unit :: string
  g_start_frame :: int
  g_stop_frame :: int
  g_total_no_frames_to_project :: nat
  g_no_frames_per_integral :: int
  g_chosen_method :: zmethod
  g_zp1 :: "'f option"
  g_stack :: "'f list"
  g_stack_track :: "'f list"
  g_title :: string
  g_n_channels :: nat

text \<open>
  Lines 71 to 88, "The Z-Projection magic happens here": the number of frames of the
  image \<^verbatim>\<open>imp\<close> now refers to and the number of frames per projection are read, the
  method is looked up (\<^verbatim>\<open>KeyError\<close> for a name that is no key), and the projector
  \<^verbatim>\<open>zp\<close> projects once, from slice 1 to slice 10. Then the stack, an empty stack, the
  title and the number of channels of \<^verbatim>\<open>imp\<close> are read.
\<close>

definition projection_magic ::
  "(zmethod \<Rightarrow> 'f list \<Rightarrow> 'f) \<Rightarrow> TimeCompactor_options \<Rightarrow> Calibration \<Rightarrow> 'f ZProjector
     \<Rightarrow> int \<Rightarrow> int \<Rightarrow> 'f world \<Rightarrow> ref \<Rightarrow> 'f world \<times> (error + 'f globals)" where
  "projection_magic project gd cal zp start_frame stop_frame w imp =
     (case heap w imp of
        None \<Rightarrow> (w, Inl (AttributeError ''getNFrames''))
      | Some im \<Rightarrow>
          (let total_no_frames_to_project = getNFrames im;
               no_frames_per_integral = py_int (tc_per_integral gd)
           in (case medthod_dict (tc_method gd) of
                 None \<Rightarrow> (w, Inl (KeyError (tc_method gd)))
               | Some chosen_method \<Rightarrow>
                 let zp = setMethod chosen_method zp;
                     zp = setStartSlice w 1 zp;
                     zp = setStopSlice w 10 zp;
                     zp = doProjection project w zp;
                     zp1 = projImage zp
                 in (w, Inr \<lparr>g_imp = imp, g_cal = cal, g_zp = zp,
                             g_frame_interval = tc_frame_interval gd,
                             g_time_unit = tc_time_unit gd,
                             g_start_frame = start_frame, g_stop_frame = stop_frame,
                             g_total_no_frames_to_project = total_no_frames_to_project,
                             g_no_frames_per_integral = no_frames_per_integral,
                             g_chosen_method = chosen_method, g_zp1 = zp1,
                             g_stack = getImageStack im, g_stack_track = [],
                             g_title = getTitle im, g_n_channels = getNChannels im\<rparr>))))"

text \<open>
  Lines 59 to 68, "If a subset of the image is to be projected": the two bounds are
  read. A start beyond the stop is put before the user in a message box (line 63), and
  line 64 ends the script: it is written \<^verbatim>\<open>raise RuntimeException(...)\<close>, but the script
  imports no name \<^verbatim>\<open>RuntimeException\<close>, so evaluating the name raises \<^verbatim>\<open>NameError\<close>. For
  bounds other than \<open>1\<close> and the number of frames, \<^verbatim>\<open>imp\<close> is rebound to the image that
  \<^verbatim>\<open>Duplicator().run(imp, start_frame, stop_frame)\<close> makes, a new object. The duplicator
  belongs to ImageJ and is a parameter of the model.
\<close>

definition subset_of_image ::
  "('f ImagePlus \<Rightarrow> int \<Rightarrow> int \<Rightarrow> error + 'f ImagePlus) \<Rightarrow> (zmethod \<Rightarrow> 'f list \<Rightarrow> 'f)
     \<Rightarrow> TimeCompactor_options \<Rightarrow> Calibration \<Rightarrow> 'f ZProjector \<Rightarrow> 'f world \<Rightarrow> ref
     \<Rightarrow> 'f world \<times> (error + 'f globals)" where
  "subset_of_image Duplicator_run project gd cal zp w imp =
     (let start_frame = py_int (tc_start gd);
          stop_frame = py_int (tc_stop gd)
      in if start_frame > stop_frame then
           (IJ_showMessage ''Start frame > Stop frame!'' w,
            Inl (NameError ''RuntimeException''))
         else
           (case heap w imp of
              None \<Rightarrow> (w, Inl (AttributeError ''getNFrames''))
            | Some im \<Rightarrow>
                if start_frame \<noteq> 1 \<or> stop_frame \<noteq> int (getNFrames im) then
                  (case Duplicator_run im start_frame stop_frame of
                     Inl e \<Rightarrow> (w, Inl e)
                   | Inr im2 \<Rightarrow>
                       (case alloc w im2 of
                          (imp2, w2) \<Rightarrow>
                            projection_magic project gd cal zp start_frame stop_frame w2 imp2))
                else projection_magic project gd cal zp start_frame stop_frame w imp))"

text \<open>
  The whole script, from line 39. The active image \<open>im0\<close> is the first object of the
  store; \<^verbatim>\<open>cal\<close> is its calibration and \<^verbatim>\<open>zp\<close> a projector constructed from it. When
  \<^verbatim>\<open>setupDialog\<close> returned \<^verbatim>\<open>None\<close>, line 50 calls \<^verbatim>\<open>getNextNumber\<close> on \<^verbatim>\<open>None\<close>.
  Otherwise the interval and the unit of the dialog are stored in the calibration of
  the image (lines 54 to 56), and the script goes on with the bounds.
\<close>

definition deepTime_buddy ::
  "(TimeCompactor_options \<Rightarrow> TimeCompactor_options)
     \<Rightarrow> ('f ImagePlus \<Rightarrow> int \<Rightarrow> int \<Rightarrow> error + 'f ImagePlus) \<Rightarrow> (zmethod \<Rightarrow> 'f list \<Rightarrow> 'f)
     \<Rightarrow> 'f ImagePlus \<Rightarrow> 'f world \<times> (error + 'f globals)" where
  "deepTime_buddy showDialog Duplicator_run project im0 =
     (case alloc \<lparr>heap = Map.empty, fresh = 0, shown = [], logged = []\<rparr> im0 of
        (imp, w) \<Rightarrow>
          (let cal = getCalibration im0
           in (case new_ZProjector w imp of
                 Inl e \<Rightarrow> (w, Inl e)
               | Inr zp \<Rightarrow>
                   (case setupDialog showDialog w im0 of
                      (w, None) \<Rightarrow> (w, Inl (AttributeError ''getNextNumber''))
                    | (w, Some gd) \<Rightarrow>
                        (let frame_interval = tc_frame_interval gd;
                             time_unit = tc_time_unit gd;
                             cal = cal\<lparr>frameInterval := frame_interval,
                                       getTimeUnit := time_unit\<rparr>;
                             w = setCalibration imp cal w
                         in subset_of_image Duplicator_run project gd cal zp w imp)))))"


section \<open>The script \<^verbatim>\<open>dialog_FRAP.py\<close>\<close>

text \<open>
  Modelled from the spec: \<^verbatim>\<open>ChannelSplitter.split\<close> belongs to ImageJ and is not in the
  repository. The spec has a multi-channel stack as \<open>nChannels\<close> interleaved frame
  sequences of equal length, and the extraction of a channel as the single-channel
  sub-stack in the original temporal order: one image for each channel, holding the
  planes of that channel, that is the planes whose position in the stack (from 0) is the
  channel (from 0) modulo the number of channels.
\<close>

definition channel_planes :: "nat \<Rightarrow> nat \<Rightarrow> 'f list \<Rightarrow> 'f list" where
  "channel_planes n c st = map (\<lambda>i. st ! i) (filter (\<lambda>i. i mod n = c) [0..<length st])"

definition ChannelSplitter_split :: "'f ImagePlus \<Rightarrow> 'f ImagePlus list" where
  "ChannelSplitter_split im =
     map (\<lambda>c. im\<lparr>getNChannels := 1,
                  getImageStack := channel_planes (getNChannels im) c (getImageStack im)\<rparr>)
       [0..<getNChannels im]"

text \<open>\<^verbatim>\<open>channelSelector(imp, channelno)\<close>: \<^verbatim>\<open>imps[(channelno-1)]\<close>, indexed as Python does.\<close>

definition channelSelector :: "'f ImagePlus \<Rightarrow> int \<Rightarrow> error + 'f ImagePlus" where
  "channelSelector im channelno = py_getitem (ChannelSplitter_split im) (channelno - 1)"

text \<open>
  The dialog "FRAP analysis options": the interval, the list of channel names with the
  one chosen, the slider of the number of frames to analyse, the checkbox of the
  automatic detection and the manual frame. \<^verbatim>\<open>getNextNumber\<close> reads the interval, the
  slider and the manual frame, in this order.
\<close>

record FRAP_options =
  fr_frame_interval :: real
  fr_channels :: "string list"
  fr_channel :: string
  fr_max_frame :: real
  fr_auto :: bool
  fr_manual :: real
  fr_wasCanceled :: bool

text \<open>
  Lines 19 to 35 of \<^verbatim>\<open>FRAPsetup(imp)\<close>: the dialog with its defaults. The frame interval
  of a calibration is a number, never \<^verbatim>\<open>None\<close>, so the default interval is the
  calibration's. \<^verbatim>\<open>channels[0]\<close> raises on an image without channels.
\<close>

definition FRAP_channels :: "'f ImagePlus \<Rightarrow> string list" where
  "FRAP_channels im = map (\<lambda>ch. py_str (int ch)) [1..<getNChannels im + 1]"

definition FRAP_dialog :: "'f ImagePlus \<Rightarrow> error + FRAP_options" where
  "FRAP_dialog im =
     (let calibration = getCalibration im;
          default_interval = frameInterval calibration;
          channels = FRAP_channels im
      in case py_getitem channels 0 of
           Inl e \<Rightarrow> Inl e
         | Inr channel0 \<Rightarrow>
             Inr \<lparr>fr_frame_interval = default_interval,
                  fr_channels = channels,
                  fr_channel = channel0,
                  fr_max_frame = 30,
                  fr_auto = True,
                  fr_manual = 0,
                  fr_wasCanceled = False\<rparr>)"

text \<open>
  \<^verbatim>\<open>FRAPsetup(imp)\<close>: the messages logged, and either an exception or the value returned:
  \<^verbatim>\<open>None\<close> when the user cancelled, otherwise the tuple of the image of the chosen
  channel, \<^verbatim>\<open>max_frame\<close>, \<^verbatim>\<open>manual_FRAP_frame\<close> and \<^verbatim>\<open>autoFRAPflag\<close>. The script keeps no
  other reference to the image it was given, so images are values here.
\<close>

definition FRAPsetup ::
  "(FRAP_options \<Rightarrow> FRAP_options) \<Rightarrow> 'f ImagePlus
     \<Rightarrow> string list \<times> (error + ('f ImagePlus \<times> int \<times> int \<times> bool) option)" where
  "FRAPsetup showDialog im =
     (case FRAP_dialog im of
        Inl e \<Rightarrow> ([], Inl e)
      | Inr d \<Rightarrow>
          (let gd = showDialog d
           in if fr_wasCanceled gd then ([''User canceled dialog!''], Inr None)
              else
                (let frame_interval = fr_frame_interval gd
                 in (case py_int_str (fr_channel gd) of
                       Inl e \<Rightarrow> ([], Inl e)
                     | Inr channel \<Rightarrow>
                         (let max_frame = py_int (fr_max_frame gd);
                              manual_FRAP_frame = py_int (fr_manual gd);
                              autoFRAPflag = fr_auto gd;
                              calibration =
                                (getCalibration im)\<lparr>frameInterval := frame_interval\<rparr>;
                              im = im\<lparr>getCalibration := calibration\<rparr>
                          in (case channelSelector im channel of
                                Inl e \<Rightarrow> ([], Inl e)
                              | Inr im \<Rightarrow>
                                  ([], Inr (Some (im, max_frame, manual_FRAP_frame,
                                                  autoFRAPflag)))))))))"

text \<open>
  The script, lines 70 and 71: the value of \<^verbatim>\<open>FRAPsetup\<close> is unpacked into four
  variables, which raises \<^verbatim>\<open>TypeError\<close> when the value is \<^verbatim>\<open>None\<close>. (Line 72 prints
  the four variables.)
\<close>

definition dialog_FRAP ::
  "(FRAP_options \<Rightarrow> FRAP_options) \<Rightarrow> 'f ImagePlus
     \<Rightarrow> string list \<times> (error + 'f ImagePlus \<times> int \<times> int \<times> bool)" where
  "dialog_FRAP showDialog current_imp =
     (case FRAPsetup showDialog current_imp of
        (lg, Inl e) \<Rightarrow> (lg, Inl e)
      | (lg, Inr None) \<Rightarrow> (lg, Inl (TypeError ''unpack''))
      | (lg, Inr (Some t)) \<Rightarrow> (lg, Inr t))"


section \<open>Concrete inputs\<close>

text \<open>
  The inputs of the concrete runs below. Planes are single intensities (natural
  numbers). \<open>movie95\<close> is a single-channel movie of 95 frames, the frames \<open>1\<close> to \<open>95\<close>
  in this order, the first frame on display; \<open>two_channels\<close> is a stack of two channels
  and three frames, the first channel with the rising intensities \<open>1, 2, 3\<close> and the
  second with \<open>10, 20, 30\<close>; \<open>rising\<close> is its first channel alone.
\<close>

definition movie95 :: "nat ImagePlus" where
  "movie95 =
     \<lparr>getTitle = ''movie'', getCalibration = \<lparr>frameInterval = 2, getTimeUnit = ''sec''\<rparr>,
      getNChannels = 1, getNFrames = 95, getFrame = 1, getImageStack = [1..<96]\<rparr>"

definition two_channels :: "nat ImagePlus" where
  "two_channels =
     \<lparr>getTitle = ''frap'', getCalibration = \<lparr>frameInterval = 1, getTimeUnit = ''sec''\<rparr>,
      getNChannels = 2, getNFrames = 3, getFrame = 1,
      getImageStack = [1, 10, 2, 20, 3, 30]\<rparr>"

definition rising :: "nat ImagePlus" where
  "rising =
     \<lparr>getTitle = ''frap'', getCalibration = \<lparr>frameInterval = 1, getTimeUnit = ''sec''\<rparr>,
      getNChannels = 1, getNFrames = 3, getFrame = 1, getImageStack = [1, 2, 3]\<rparr>"

text \<open>
  Modelled from the spec: the duplicator of the concrete runs (\<^verbatim>\<open>Duplicator.run\<close> belongs
  to ImageJ and is not in the repository). The spec has the selection of a range return
  a new sequence containing the frames from start to stop, both included, numbered again
  from 1.
\<close>

definition Duplicator_frames :: "'f ImagePlus \<Rightarrow> int \<Rightarrow> int \<Rightarrow> error + 'f ImagePlus" where
  "Duplicator_frames im a b =
     Inr (im\<lparr>getNFrames := length (slices (getImageStack im) a b), getFrame := 1,
             getImageStack := slices (getImageStack im) a b\<rparr>)"

text \<open>The projection engine of the concrete runs adds the intensities up.\<close>

definition sum_slices :: "zmethod \<Rightarrow> nat list \<Rightarrow> nat" where
  "sum_slices m xs = sum_list xs"


section \<open>Auxiliary facts\<close>

lemmas script_defs =
  deepTime_buddy_def subset_of_image_def projection_magic_def setupDialog_def alloc_def
  new_ZProjector_def setCalibration_def IJ_showMessage_def IJ_log_def setMethod_def
  setStartSlice_def setStopSlice_def doProjection_def

lemmas dialog_defs =
  TimeCompactor_dialog_def methods_as_strings_def methods_as_const_def medthod_dict_def
  py_int_def Let_def

lemma slices_from_1: "slices st 1 b = take (nat b) st"
  by (simp add: slices_def)

lemma py_int_of_int: "py_int (real_of_int k) = k"
  by (simp add: py_int_def)

lemma first_ten_frames: "take 10 (getImageStack movie95) = [1, 2, 3, 4, 5, 6, 7, 8, 9, 10]"
  by (simp add: movie95_def take_upt upt_rec)

lemma frames_3_to_7: "slices (getImageStack movie95) 3 7 = [3, 4, 5, 6, 7]"
  by (simp add: movie95_def slices_def take_upt upt_rec)

lemma movie95_fields:
  "getNFrames movie95 = 95" "getFrame movie95 = 1" "getNChannels movie95 = 1"
  "getTitle movie95 = ''movie''" "length (getImageStack movie95) = 95"
  "getCalibration movie95 = \<lparr>frameInterval = 2, getTimeUnit = ''sec''\<rparr>"
  by (simp_all add: movie95_def)

text \<open>Reading back the decimal digits that \<open>py_str\<close> writes gives the number.\<close>

lemma below_ten: "d < 10 \<Longrightarrow> d \<in> {0, 1, 2, 3, 4, 5, 6, 7, 8, 9::nat}"
  by auto

lemma digit_val_digit_char: "d < 10 \<Longrightarrow> digit_val (digit_char d) = Some d"
  by (drule below_ten) (auto simp add: digit_val_def digit_char_def decimal_digits_def upt_rec)

lemma digit_char_not_sign:
  "d < 10 \<Longrightarrow> digit_char d \<noteq> CHR ''-'' \<and> digit_char d \<noteq> CHR ''+''"
  by (drule below_ten) (auto simp add: digit_char_def decimal_digits_def)

lemma parse_digits_append:
  "parse_digits acc (xs @ ys) =
     (case parse_digits acc xs of None \<Rightarrow> None | Some a \<Rightarrow> parse_digits a ys)"
  by (induction xs arbitrary: acc) (auto split: option.splits)

lemma parse_digits_str_nat: "parse_digits 0 (str_nat n) = Some n"
proof (induction n rule: str_nat.induct)
  case (1 n)
  show ?case
  proof (cases "n < 10")
    case True
    then show ?thesis
      by (subst str_nat.simps) (simp add: digit_val_digit_char)
  next
    case False
    with 1 have "parse_digits 0 (str_nat (n div 10)) = Some (n div 10)"
      by simp
    with False show ?thesis
      by (subst str_nat.simps) (simp add: parse_digits_append digit_val_digit_char)
  qed
qed

lemma str_nat_not_Nil: "str_nat n \<noteq> []"
  by (subst str_nat.simps) simp

lemma str_nat_starts_with_digit: "\<exists>d cs. d < 10 \<and> str_nat n = digit_char d # cs"
proof (induction n rule: str_nat.induct)
  case (1 n)
  show ?case
  proof (cases "n < 10")
    case True
    then show ?thesis
      by (subst str_nat.simps) auto
  next
    case False
    with 1 obtain d cs where "d < 10" "str_nat (n div 10) = digit_char d # cs"
      by auto
    with False show ?thesis
      by (subst str_nat.simps) auto
  qed
qed

lemma parse_nat_str_nat: "parse_nat (str_nat n) = Some n"
  by (simp add: parse_nat_def str_nat_not_Nil parse_digits_str_nat)

lemma py_int_str_py_str: "py_int_str (py_str i) = Inr i"
proof (cases "i < 0")
  case True
  then show ?thesis
    by (simp add: py_int_str_def py_str_def parse_nat_str_nat)
next
  case False
  obtain d cs where d: "d < 10" and dc: "str_nat (nat i) = digit_char d # cs"
    using str_nat_starts_with_digit by blast
  have "parse_nat (digit_char d # cs) = Some (nat i)"
    using parse_nat_str_nat [of "nat i"] dc by simp
  with False d dc show ?thesis
    by (simp add: py_int_str_def py_str_def digit_char_not_sign)
qed

text \<open>The split has one image for each channel.\<close>

lemma length_split: "length (ChannelSplitter_split im) = getNChannels im"
  by (simp add: ChannelSplitter_split_def)

lemma nth_split:
  "c < getNChannels im \<Longrightarrow>
     ChannelSplitter_split im ! c =
       im\<lparr>getNChannels := 1,
          getImageStack := channel_planes (getNChannels im) c (getImageStack im)\<rparr>"
  by (simp add: ChannelSplitter_split_def)

lemma FRAP_channels_mem:
  "s \<in> set (FRAP_channels im) \<Longrightarrow>
     \<exists>c. py_int_str s = Inr c \<and> 1 \<le> c \<and> c \<le> int (getNChannels im)"
  by (auto simp add: FRAP_channels_def py_int_str_py_str)

lemma FRAP_dialog_channels: "FRAP_dialog im = Inr d \<Longrightarrow> fr_channels d = FRAP_channels im"
  by (auto simp add: FRAP_dialog_def Let_def split: sum.splits)

lemma FRAP_dialog_defaults:
  "FRAP_dialog im = Inr d \<Longrightarrow> fr_manual d = 0 \<and> fr_auto d \<and> \<not> fr_wasCanceled d"
  by (auto simp add: FRAP_dialog_def Let_def split: sum.splits)

text \<open>
  A run of \<^verbatim>\<open>dialog_FRAP.py\<close> whose dialog was not cancelled and whose channel is one of
  the names the dialog offered: the channel name is a number \<open>c\<close> from \<open>1\<close> to the number
  of channels, and the script ends with the image number \<open>c\<close> of the split, the two
  numbers and the flag of the dialog.
\<close>

lemma dialog_FRAP_run:
  assumes "FRAP_dialog im = Inr d"
    and "gd = showDialog d"
    and "\<not> fr_wasCanceled gd"
    and "fr_channel gd \<in> set (fr_channels d)"
    and "im' = im\<lparr>getCalibration := (getCalibration im)\<lparr>frameInterval := fr_frame_interval gd\<rparr>\<rparr>"
  shows "\<exists>c. py_int_str (fr_channel gd) = Inr c \<and> 1 \<le> c \<and> c \<le> int (getNChannels im) \<and>
           dialog_FRAP showDialog im =
             ([], Inr (ChannelSplitter_split im' ! nat (c - 1),
                       py_int (fr_max_frame gd), py_int (fr_manual gd), fr_auto gd))"
proof -
  from assms(1) have "fr_channels d = FRAP_channels im"
    by (rule FRAP_dialog_channels)
  with assms(4) obtain c where
    c: "py_int_str (fr_channel gd) = Inr c" "1 \<le> c" "c \<le> int (getNChannels im)"
    using FRAP_channels_mem by metis
  have n: "getNChannels im' = getNChannels im"
    using assms(5) by simp
  from c n have "channelSelector im' c = Inr (ChannelSplitter_split im' ! nat (c - 1))"
    by (simp add: channelSelector_def py_getitem_def length_split)
  with assms c show ?thesis
    by (auto simp add: dialog_FRAP_def FRAPsetup_def Let_def)
qed

lemma two_channels_dialog:
  "FRAP_dialog two_channels =
     Inr \<lparr>fr_frame_interval = 1, fr_channels = [''1'', ''2''], fr_channel = ''1'',
          fr_max_frame = 30, fr_auto = True, fr_manual = 0, fr_wasCanceled = False\<rparr>"
  by (simp add: FRAP_dialog_def FRAP_channels_def two_channels_def py_getitem_def py_str_def
      upt_rec str_nat.simps digit_char_def decimal_digits_def)

lemma rising_dialog:
  "FRAP_dialog rising =
     Inr \<lparr>fr_frame_interval = 1, fr_channels = [''1''], fr_channel = ''1'',
          fr_max_frame = 30, fr_auto = True, fr_manual = 0, fr_wasCanceled = False\<rparr>"
  by (simp add: FRAP_dialog_def FRAP_channels_def rising_def py_getitem_def py_str_def
      upt_rec str_nat.simps digit_char_def decimal_digits_def)

lemma int_of_channel_names: "py_int_str ''1'' = Inr 1" "py_int_str ''2'' = Inr 2"
  by (simp_all add: py_int_str_def parse_nat_def digit_val_def decimal_digits_def upt_rec)

lemma split_two_channels:
  "ChannelSplitter_split two_channels =
     [two_channels\<lparr>getNChannels := 1, getImageStack := [1, 2, 3]\<rparr>,
      two_channels\<lparr>getNChannels := 1, getImageStack := [10, 20, 30]\<rparr>]"
  by (simp add: ChannelSplitter_split_def channel_planes_def two_channels_def upt_rec)

lemma same_interval:
  "two_channels\<lparr>getCalibration := (getCalibration two_channels)\<lparr>frameInterval := 1\<rparr>\<rparr> =
     two_channels"
  "rising\<lparr>getCalibration := (getCalibration rising)\<lparr>frameInterval := 1\<rparr>\<rparr> = rising"
  by (simp_all add: two_channels_def rising_def)

lemma split_rising: "ChannelSplitter_split rising = [rising]"
  by (simp add: ChannelSplitter_split_def channel_planes_def rising_def upt_rec)


section \<open>The compaction script: range selection\<close>



text \<open>
  Claim C3. Whenever the dialog was not cancelled, the image has at least one frame,
  the start frame is 1, the stop frame is the number of frames of the image and the
  method is one of the six names, the script runs to its end with \<^verbatim>\<open>imp\<close> still
  referring to the object it started with (address 0): the store holds no other image
  (no copy was made, whatever the duplicator would do), and the stack read from \<^verbatim>\<open>imp\<close>
  is the stack of the input, the same planes in the same order.
\<close>

theorem full_range_keeps_image:
  assumes "gd = showDialog (TimeCompactor_dialog img)"
    and "\<not> tc_wasCanceled gd"
    and "1 \<le> getNFrames img"
    and "py_int (tc_start gd) = 1"
    and "py_int (tc_stop gd) = int (getNFrames img)"
    and "medthod_dict (tc_method gd) = Some m"
    and "r = deepTime_buddy showDialog Duplicator_run project img"
  shows "\<exists>g. snd r = Inr g \<and> g_imp g = 0 \<and> dom (heap (fst r)) = {0} \<and>
           fresh (fst r) = 1 \<and> g_stack g = getImageStack img \<and>
           g_total_no_frames_to_project g = getNFrames img"
  using assms by (simp add: script_defs Let_def)

theorem full_range_keeps_image_witness:
  "\<exists>g. snd (deepTime_buddy (\<lambda>gd. gd) (\<lambda>im a b. Inl IndexError) sum_slices movie95) = Inr g \<and>
       g_imp g = 0 \<and>
       dom (heap (fst (deepTime_buddy (\<lambda>gd. gd) (\<lambda>im a b. Inl IndexError) sum_slices
                         movie95))) = {0} \<and>
       fresh (fst (deepTime_buddy (\<lambda>gd. gd) (\<lambda>im a b. Inl IndexError) sum_slices
                     movie95)) = 1 \<and>
       g_stack g = getImageStack movie95 \<and> g_total_no_frames_to_project g = 95"
  using full_range_keeps_image
    [where showDialog = "\<lambda>gd. gd" and img = movie95 and m = MAX_METHOD
       and Duplicator_run = "\<lambda>im a b. Inl IndexError" and project = sum_slices,
     OF refl _ _ _ _ _ refl]
  by (simp add: dialog_defs movie95_fields)


section \<open>The compaction script: calibration\<close>

text \<open>
  Claim C8. The script builds no output image of its own (\<^verbatim>\<open>stack_track\<close> stays empty);
  what it hands on are the image \<^verbatim>\<open>imp\<close> refers to when it ends, from which it takes the
  stack, the title and the channels for the output, and the image the projector \<^verbatim>\<open>zp\<close>
  projects from. Whenever the dialog was not cancelled and the duplicator hands the
  calibration of its argument on to the duplicate (as the spec has it of every derived
  sequence), the image the script started from has, when the script stops, exactly the
  frame interval and the time unit read from the dialog, and in every run that reaches
  its end so have the variable \<^verbatim>\<open>cal\<close>, the image \<^verbatim>\<open>imp\<close> refers to (the duplicate, when
  one was made) and the image of the projector. None depends on the number of frames per
  projection: the interval is stored as it was entered, never multiplied.
\<close>

theorem calibration_from_dialog:
  assumes "gd = showDialog (TimeCompactor_dialog img)"
    and "\<not> tc_wasCanceled gd"
    and "r = deepTime_buddy showDialog Duplicator_run project img"
    and "\<And>im a b im2. Duplicator_run im a b = Inr im2 \<Longrightarrow> getCalibration im2 = getCalibration im"
  shows "map_option getCalibration (heap (fst r) 0) =
           Some \<lparr>frameInterval = tc_frame_interval gd, getTimeUnit = tc_time_unit gd\<rparr> \<and>
         (\<forall>g. snd r = Inr g \<longrightarrow>
            g_cal g = \<lparr>frameInterval = tc_frame_interval gd, getTimeUnit = tc_time_unit gd\<rparr> \<and>
            map_option getCalibration (heap (fst r) (g_imp g)) =
              Some \<lparr>frameInterval = tc_frame_interval gd, getTimeUnit = tc_time_unit gd\<rparr> \<and>
            map_option getCalibration (heap (fst r) (zp_imp (g_zp g))) =
              Some \<lparr>frameInterval = tc_frame_interval gd, getTimeUnit = tc_time_unit gd\<rparr>)"
proof -
  have dup: "getCalibration im2 = getCalibration im" if "Duplicator_run im a b = Inr im2"
    for im a b im2
    using that by (rule assms(4))
  show ?thesis
    using assms(1-3)
    by (auto simp add: script_defs Let_def
        split: sum.splits option.splits prod.splits if_splits dest!: dup)
qed

theorem calibration_from_dialog_witness:
  "map_option getCalibration
     (heap (fst (deepTime_buddy
                   (\<lambda>gd. gd\<lparr>tc_time_unit := ''min'', tc_start := 3, tc_stop := 7,
                            tc_per_integral := 5\<rparr>)
                   Duplicator_frames sum_slices movie95)) 0) =
     Some \<lparr>frameInterval = 2, getTimeUnit = ''min''\<rparr> \<and>
   (\<exists>g. snd (deepTime_buddy
               (\<lambda>gd. gd\<lparr>tc_time_unit := ''min'', tc_start := 3, tc_stop := 7,
                        tc_per_integral := 5\<rparr>)
               Duplicator_frames sum_slices movie95) = Inr g \<and>
        g_imp g = 1 \<and> zp_imp (g_zp g) = 0 \<and> g_no_frames_per_integral g = 5 \<and>
        g_cal g = \<lparr>frameInterval = 2, getTimeUnit = ''min''\<rparr> \<and>
        map_option getCalibration
          (heap (fst (deepTime_buddy
                        (\<lambda>gd. gd\<lparr>tc_time_unit := ''min'', tc_start := 3, tc_stop := 7,
                                 tc_per_integral := 5\<rparr>)
                        Duplicator_frames sum_slices movie95)) 1) =
          Some \<lparr>frameInterval = 2, getTimeUnit = ''min''\<rparr>)"
proof -
  have keeps: "getCalibration im2 = getCalibration im"
    if "Duplicator_frames im a b = Inr im2" for im :: "nat ImagePlus" and a b im2
    using that by (auto simp add: Duplicator_frames_def)
  obtain g where run:
    "snd (deepTime_buddy
            (\<lambda>gd. gd\<lparr>tc_time_unit := ''min'', tc_start := 3, tc_stop := 7,
                     tc_per_integral := 5\<rparr>)
            Duplicator_frames sum_slices movie95) = Inr g"
    and g: "g_imp g = 1" "zp_imp (g_zp g) = 0" "g_no_frames_per_integral g = 5"
    by (simp add: script_defs dialog_defs movie95_fields Duplicator_frames_def)
  from calibration_from_dialog
    [where showDialog = "\<lambda>gd. gd\<lparr>tc_time_unit := ''min'', tc_start := 3, tc_stop := 7,
                                  tc_per_integral := 5\<rparr>"
       and img = movie95 and Duplicator_run = Duplicator_frames and project = sum_slices,
     OF refl _ refl keeps]
    run g
  show ?thesis
    by (simp add: dialog_defs movie95_fields)
qed


section \<open>The compaction script: projection\<close>

text \<open>
  Claim C10. In every run of the script that reaches its end, the projector \<^verbatim>\<open>zp\<close>
  still holds the reference to the image the script started from (address 0, where it
  was constructed before the dialog), whatever \<^verbatim>\<open>imp\<close> refers to by then, and the
  projection \<^verbatim>\<open>zp1\<close> is the projection, under the chosen method, of the first ten planes
  of the stack of that image (of all of them when it has fewer): the start and stop
  frames and the duplicate made for them have no part in it.
\<close>

theorem projection_from_original:
  assumes "deepTime_buddy showDialog Duplicator_run project img = (w, Inr g)"
  shows "zp_imp (g_zp g) = 0 \<and>
         g_zp1 g = Some (project (g_chosen_method g) (take 10 (getImageStack img)))"
  using assms
  by (auto simp add: script_defs Let_def slices_from_1
      split: sum.splits option.splits prod.splits if_splits)

theorem projection_from_original_witness:
  "(\<exists>w g. deepTime_buddy
            (\<lambda>gd. gd\<lparr>tc_start := 3, tc_stop := 7, tc_method := ''Sum Slices''\<rparr>)
            Duplicator_frames sum_slices movie95 = (w, Inr g) \<and>
          g_imp g = 1 \<and> g_stack g = [3, 4, 5, 6, 7] \<and> zp_imp (g_zp g) = 0 \<and>
          g_zp1 g = Some (sum_slices SUM_METHOD [1, 2, 3, 4, 5, 6, 7, 8, 9, 10]))"
proof -
  obtain w g where run:
    "deepTime_buddy (\<lambda>gd. gd\<lparr>tc_start := 3, tc_stop := 7, tc_method := ''Sum Slices''\<rparr>)
       Duplicator_frames sum_slices movie95 = (w, Inr g)"
    and g: "g_imp g = 1" "g_stack g = [3, 4, 5, 6, 7]" "g_chosen_method g = SUM_METHOD"
    by (simp add: script_defs dialog_defs movie95_fields Duplicator_frames_def frames_3_to_7)
  from projection_from_original [OF run] g first_ten_frames run show ?thesis
    by simp
qed

text \<open>
  Claim C1. The script at the 95-frame movie of the spec's example with the dialog left
  as it came up (10 frames per projection), and with 5 frames per projection instead:
  both runs project once, the first ten frames (55 is their sum), and leave the output
  stack \<^verbatim>\<open>stack_track\<close> empty. The claim has ten, respectively nineteen, projected frames.
\<close>

theorem one_projection_of_ten_frames:
  "map_sum id (\<lambda>g. (g_no_frames_per_integral g, g_zp1 g, g_stack_track g))
     (snd (deepTime_buddy (\<lambda>gd. gd\<lparr>tc_method := ''Sum Slices''\<rparr>) Duplicator_frames
             sum_slices movie95)) =
     Inr (10, Some 55, []) \<and>
   map_sum id (\<lambda>g. (g_no_frames_per_integral g, g_zp1 g, g_stack_track g))
     (snd (deepTime_buddy (\<lambda>gd. gd\<lparr>tc_per_integral := 5, tc_method := ''Sum Slices''\<rparr>)
             Duplicator_frames sum_slices movie95)) =
     Inr (5, Some 55, [])"
  by (simp add: script_defs dialog_defs movie95_fields slices_from_1 first_ten_frames
      sum_slices_def)


section \<open>Cancelling the dialog\<close>

text \<open>
  Claim C7. When the user cancels the dialog, \<^verbatim>\<open>deepTime_buddy.py\<close> logs "User canceled
  dialog!" and then raises \<^verbatim>\<open>AttributeError\<close>, calling \<^verbatim>\<open>getNextNumber\<close> on the \<^verbatim>\<open>None\<close>
  that \<^verbatim>\<open>setupDialog\<close> returned; \<^verbatim>\<open>dialog_FRAP.py\<close> logs the same and raises \<^verbatim>\<open>TypeError\<close>,
  unpacking the \<^verbatim>\<open>None\<close> that \<^verbatim>\<open>FRAPsetup\<close> returned. Neither run ends normally.
\<close>

theorem cancel_raises:
  "deepTime_buddy (\<lambda>gd. gd\<lparr>tc_wasCanceled := True\<rparr>) Duplicator_frames sum_slices movie95 =
     (\<lparr>heap = [0 \<mapsto> movie95], fresh = 1, shown = [], logged = [''User canceled dialog!'']\<rparr>,
      Inl (AttributeError ''getNextNumber'')) \<and>
   dialog_FRAP (\<lambda>gd. gd\<lparr>fr_wasCanceled := True\<rparr>) two_channels =
     ([''User canceled dialog!''], Inl (TypeError ''unpack''))"
  by (simp add: script_defs dialog_defs dialog_FRAP_def FRAPsetup_def two_channels_dialog)


section \<open>The FRAP script: channel selection\<close>

text \<open>
  Claim C6, as amended. For a channel number from 1 to the number of channels,
  \<^verbatim>\<open>channelSelector\<close> returns the single-channel image of that channel: the planes of the
  stack at the positions of the channel, in their order. For a channel number above the
  number of channels, and for one at or below minus the number of channels, it raises
  \<^verbatim>\<open>IndexError\<close>. (The numbers in between are not covered.)
\<close>

theorem channelSelector_result:
  assumes "1 \<le> channel \<or> channel \<le> - int (getNChannels im)"
  shows "channelSelector im channel =
           (if 1 \<le> channel \<and> channel \<le> int (getNChannels im) then
              Inr (im\<lparr>getNChannels := 1,
                      getImageStack :=
                        channel_planes (getNChannels im) (nat (channel - 1))
                          (getImageStack im)\<rparr>)
            else Inl IndexError)"
  using assms
  by (auto simp add: channelSelector_def py_getitem_def length_split nth_split)

theorem channelSelector_result_witness:
  "channelSelector two_channels 2 =
     Inr (two_channels\<lparr>getNChannels := 1, getImageStack := [10, 20, 30]\<rparr>) \<and>
   channelSelector two_channels 3 = Inl IndexError \<and>
   channelSelector two_channels (- 2) = Inl IndexError"
  using channelSelector_result [of 2 two_channels]
    channelSelector_result [of 3 two_channels]
    channelSelector_result [of "- 2" two_channels]
  by (simp add: two_channels_def channel_planes_def upt_rec)

text \<open>
  Claim C6 as stated fails: channel 0 is outside \<open>1 .. 2\<close>, and on the stack of two
  channels \<^verbatim>\<open>channelSelector\<close> raises nothing and returns the second channel.
\<close>

theorem channel_zero_counterexample:
  "channelSelector two_channels 0 =
     Inr (two_channels\<lparr>getNChannels := 1, getImageStack := [10, 20, 30]\<rparr>)"
  by (simp add: channelSelector_def py_getitem_def split_two_channels)

text \<open>
  Claim C9. Whenever the dialog was not cancelled and the channel read from it is one
  of the names the dialog offered (the numbers 1 to the number of channels of the
  image), the name is a number \<open>c\<close> whose index \<open>c - 1\<close> lies within the array of the
  split, and the script ends normally with the image at that index.
\<close>

theorem dialog_channel_in_bounds:
  assumes "FRAP_dialog im = Inr d"
    and "gd = showDialog d"
    and "\<not> fr_wasCanceled gd"
    and "fr_channel gd \<in> set (fr_channels d)"
    and "im' = im\<lparr>getCalibration := (getCalibration im)\<lparr>frameInterval := fr_frame_interval gd\<rparr>\<rparr>"
  shows "\<exists>c. py_int_str (fr_channel gd) = Inr c \<and>
           0 \<le> c - 1 \<and> c - 1 < int (length (ChannelSplitter_split im')) \<and>
           channelSelector im' c = Inr (ChannelSplitter_split im' ! nat (c - 1)) \<and>
           map_sum id fst (snd (dialog_FRAP showDialog im)) =
             Inr (ChannelSplitter_split im' ! nat (c - 1))"
proof -
  from assms have
    "\<exists>c. py_int_str (fr_channel gd) = Inr c \<and> 1 \<le> c \<and> c \<le> int (getNChannels im) \<and>
       dialog_FRAP showDialog im =
         ([], Inr (ChannelSplitter_split im' ! nat (c - 1),
                   py_int (fr_max_frame gd), py_int (fr_manual gd), fr_auto gd))"
    by (rule dialog_FRAP_run [where d = d])
  then obtain c where
    c: "py_int_str (fr_channel gd) = Inr c" "1 \<le> c" "c \<le> int (getNChannels im)"
    and run: "dialog_FRAP showDialog im =
      ([], Inr (ChannelSplitter_split im' ! nat (c - 1),
                py_int (fr_max_frame gd), py_int (fr_manual gd), fr_auto gd))"
    by blast
  have n: "getNChannels im' = getNChannels im"
    using assms(5) by simp
  from c n have "channelSelector im' c = Inr (ChannelSplitter_split im' ! nat (c - 1))"
    by (simp add: channelSelector_def py_getitem_def length_split)
  with c n run show ?thesis
    by (auto simp add: length_split)
qed


theorem dialog_channel_in_bounds_witness:
  "py_int_str ''2'' = Inr 2 \<and> (0::int) \<le> 2 - 1 \<and>
   (2::int) - 1 < int (length (ChannelSplitter_split two_channels)) \<and>
   channelSelector two_channels 2 =
     Inr (two_channels\<lparr>getNChannels := 1, getImageStack := [10, 20, 30]\<rparr>) \<and>
   map_sum id fst (snd (dialog_FRAP (\<lambda>gd. gd\<lparr>fr_channel := ''2''\<rparr>) two_channels)) =
     Inr (two_channels\<lparr>getNChannels := 1, getImageStack := [10, 20, 30]\<rparr>)"
  using dialog_channel_in_bounds
    [where showDialog = "\<lambda>gd. gd\<lparr>fr_channel := ''2''\<rparr>" and im = two_channels,
     OF two_channels_dialog refl _ _ refl]
  by (simp add: int_of_channel_names split_two_channels same_interval)


section \<open>The FRAP script: the bleach frame\<close>

text \<open>
  Claim C4, as amended. In manual mode (the checkbox of the automatic detection
  unchecked), for every image and every whole number \<open>k\<close> entered as the manual frame,
  within the frames of the image or not, a run whose dialog was not cancelled and whose
  channel is one the dialog offered ends normally with the frame \<open>k\<close> and the flag false.
  The result is given by the dialog alone: no plane of the image is read for it, and no
  range check is made on \<open>k\<close>.
\<close>

theorem manual_frame_passed_through:
  assumes "FRAP_dialog im = Inr d"
    and "gd = showDialog d"
    and "\<not> fr_wasCanceled gd"
    and "fr_channel gd \<in> set (fr_channels d)"
    and "\<not> fr_auto gd"
    and "fr_manual gd = real_of_int k"
  shows "\<exists>ci. dialog_FRAP showDialog im = ([], Inr (ci, py_int (fr_max_frame gd), k, False))"
  using dialog_FRAP_run [where d = d and gd = gd and showDialog = showDialog, OF assms(1-4) refl]
    assms(5,6)
  by (auto simp add: py_int_of_int)

theorem manual_frame_passed_through_witness:
  "\<exists>ci. dialog_FRAP (\<lambda>gd. gd\<lparr>fr_max_frame := 3, fr_auto := False, fr_manual := 7\<rparr>) rising =
          ([], Inr (ci, 3, 7, False))"
  using manual_frame_passed_through
    [where showDialog = "\<lambda>gd. gd\<lparr>fr_max_frame := 3, fr_auto := False, fr_manual := 7\<rparr>"
       and im = rising and k = 7, OF rising_dialog refl]
  by (simp add: py_int_def)

text \<open>
  Claim C4 as stated fails: on the series of three frames, manual mode with the manual
  frame left at 0, which is outside \<open>1 .. 3\<close>, ends normally with frame 0 and raises
  nothing.
\<close>

theorem manual_frame_zero_counterexample:
  "dialog_FRAP (\<lambda>gd. gd\<lparr>fr_max_frame := 3, fr_auto := False\<rparr>) rising =
     ([], Inr (rising, 3, 0, False))"
  by (simp add: dialog_FRAP_def FRAPsetup_def rising_dialog int_of_channel_names
      same_interval channelSelector_def py_getitem_def split_rising py_int_def Let_def)

text \<open>
  Claim C5, as amended. In automatic mode (the checkbox checked), for every image and
  whatever stands in the manual-frame field, a run whose dialog was not cancelled and
  whose channel is one the dialog offered ends normally, with the flag true and the
  manual-frame field handed on as it is; the field comes up as 0. The script makes no
  detection and raises nothing for a series without a drop.
\<close>

theorem automatic_mode_returns:
  assumes "FRAP_dialog im = Inr d"
    and "gd = showDialog d"
    and "\<not> fr_wasCanceled gd"
    and "fr_channel gd \<in> set (fr_channels d)"
    and "fr_auto gd"
  shows "(\<exists>ci. dialog_FRAP showDialog im =
            ([], Inr (ci, py_int (fr_max_frame gd), py_int (fr_manual gd), True))) \<and>
         py_int (fr_manual d) = 0"
  using dialog_FRAP_run [where d = d and gd = gd and showDialog = showDialog, OF assms(1-4) refl]
    assms(5) FRAP_dialog_defaults [OF assms(1)]
  by (auto simp add: py_int_def)

theorem automatic_mode_returns_witness:
  "(\<exists>ci. dialog_FRAP (\<lambda>gd. gd\<lparr>fr_max_frame := 2, fr_manual := 7\<rparr>) two_channels =
           ([], Inr (ci, 2, 7, True))) \<and>
   (\<exists>ci. dialog_FRAP (\<lambda>gd. gd\<lparr>fr_max_frame := 2\<rparr>) two_channels =
           ([], Inr (ci, 2, 0, True)))"
  using automatic_mode_returns
    [where showDialog = "\<lambda>gd. gd\<lparr>fr_max_frame := 2, fr_manual := 7\<rparr>" and im = two_channels,
     OF two_channels_dialog refl]
    automatic_mode_returns
    [where showDialog = "\<lambda>gd. gd\<lparr>fr_max_frame := 2\<rparr>" and im = two_channels,
     OF two_channels_dialog refl]
  by (simp add: py_int_def)

text \<open>
  Claim C5 as stated fails: on the rising series \<open>1, 2, 3\<close>, where no frame shows a
  decrease, automatic mode ends normally, with frame 0.
\<close>

theorem automatic_mode_rising_counterexample:
  "dialog_FRAP (\<lambda>gd. gd\<lparr>fr_max_frame := 3\<rparr>) rising = ([], Inr (rising, 3, 0, True))"
  by (simp add: dialog_FRAP_def FRAPsetup_def rising_dialog int_of_channel_names
      same_interval channelSelector_def py_getitem_def split_rising py_int_def Let_def)


end
